theory Spec2Isabelle
  imports Complex_Main "HOL-Library.Word" "HOL-Library.Sublist" "HOL-Library.Log_Nat"
begin

section \<open>Values of the snippets\<close>

text \<open>
  A JavaScript string is a sequence of 16-bit code units. The snippets print Cyrillic
  messages, which lie outside \<^typ>\<open>char\<close>, so a string is a list of 16-bit words and
  \<open>lit\<close> embeds an ASCII literal of the source.
\<close>

type_synonym jsstring = "16 word list"

definition lit :: "string \<Rightarrow> jsstring" where
  "lit s = map of_char s"

text \<open>
  Numbers are IEEE 754 doubles. Every finite double is an integer multiple of its smallest
  positive value \<open>2^-1074\<close>, so \<open>Finite n\<close> stands for \<open>n * 2^-1074\<close>; the
  doubles are the \<open>n\<close> with at most 53 significant bits and magnitude below
  \<open>2^2098\<close> units, that is below \<open>2^1024\<close>. The operations below return doubles.
  \<open>Finite 0\<close> is \<open>+0\<close> and \<open>NegZero\<close> is \<open>-0\<close>.
\<close>

datatype jsnum = Finite int | NegZero | PosInf | NegInf | NaN

text \<open>
  Rounding an exact value, given in the same unit, to the nearest double, ties to the even
  significand: \<open>k\<close> is the number of bits beyond the 53 that a significand holds,
  \<open>q\<close> and \<open>q + 1\<close> are the two neighbouring significands, and a result of
  magnitude \<open>2^1024\<close> or more overflows to an infinity. Values below \<open>2^-1022\<close>
  are multiples of the unit with fewer bits and need no rounding.
\<close>

definition round_double :: "int \<Rightarrow> jsnum" where
  "round_double s =
     (let k = bitlen \<bar>s\<bar> - 53 in
      if k \<le> 0 then Finite s
      else
        let unit = 2 ^ nat k;
            q = s div unit;
            r = s mod unit;
            m = (if 2 * r < unit then q
                 else if unit < 2 * r then q + 1
                 else if even q then q else q + 1);
            v = m * unit
        in if 2 ^ 2098 \<le> v then PosInf
           else if v \<le> - (2 ^ 2098) then NegInf
           else Finite v)"

text \<open>The number an integer literal of the source denotes.\<close>

definition Num :: "int \<Rightarrow> jsnum" where
  "Num i = round_double (i * 2 ^ 1074)"

text \<open>
  Addition: NaN is absorbing, opposite infinities give NaN, \<open>-0\<close> is neutral (so
  \<open>-0 + -0\<close> is \<open>-0\<close> and \<open>-0 + +0\<close> is \<open>+0\<close>), and the exact sum of two
  finite values is rounded; an exact sum of zero is \<open>+0\<close>. Subtraction adds the
  negated operand.
\<close>

fun js_add :: "jsnum \<Rightarrow> jsnum \<Rightarrow> jsnum" where
  "js_add NaN y = NaN"
| "js_add x NaN = NaN"
| "js_add PosInf NegInf = NaN"
| "js_add NegInf PosInf = NaN"
| "js_add PosInf y = PosInf"
| "js_add x PosInf = PosInf"
| "js_add NegInf y = NegInf"
| "js_add x NegInf = NegInf"
| "js_add NegZero y = y"
| "js_add x NegZero = x"
| "js_add (Finite a) (Finite b) = round_double (a + b)"

fun js_neg :: "jsnum \<Rightarrow> jsnum" where
  "js_neg (Finite a) = (if a = 0 then NegZero else Finite (- a))"
| "js_neg NegZero = Finite 0"
| "js_neg PosInf = NegInf"
| "js_neg NegInf = PosInf"
| "js_neg NaN = NaN"

definition js_sub :: "jsnum \<Rightarrow> jsnum \<Rightarrow> jsnum" where
  "js_sub x y = js_add x (js_neg y)"

text \<open>
  A \<open>throw\<close> is a result \<open>Inl e\<close>. \<open>Error\<close> carries the message of
  \<open>new Error(message)\<close>; the text of an engine's \<open>TypeError\<close> is not fixed by the
  language, so it carries none.
\<close>

datatype error = Error jsstring | TypeError

type_synonym console = "jsstring list"


section \<open>Adapter: OldCalc, NewCalc, CalcAdapter\<close>

text \<open>The two calculators have no fields; the adapter holds a \<open>NewCalc\<close>.\<close>

datatype OldCalc = OldCalc_object

datatype NewCalc = NewCalc_object

record CalcAdapter =
  calc :: NewCalc

definition new_OldCalc :: OldCalc where
  "new_OldCalc = OldCalc_object"

definition new_NewCalc :: NewCalc where
  "new_NewCalc = NewCalc_object"

definition new_CalcAdapter :: CalcAdapter where
  "new_CalcAdapter = \<lparr>calc = new_NewCalc\<rparr>"

definition OldCalc_operations :: "OldCalc \<Rightarrow> jsnum \<Rightarrow> jsnum \<Rightarrow> jsstring \<Rightarrow> jsnum" where
  "OldCalc_operations this t1 t2 operation =
     (if operation = lit ''add'' then js_add t1 t2
      else if operation = lit ''sub'' then js_sub t1 t2
      else NaN)"

definition NewCalc_add :: "NewCalc \<Rightarrow> jsnum \<Rightarrow> jsnum \<Rightarrow> jsnum" where
  "NewCalc_add this t1 t2 = js_add t1 t2"

definition NewCalc_sub :: "NewCalc \<Rightarrow> jsnum \<Rightarrow> jsnum \<Rightarrow> jsnum" where
  "NewCalc_sub this t1 t2 = js_sub t1 t2"

definition CalcAdapter_operations :: "CalcAdapter \<Rightarrow> jsnum \<Rightarrow> jsnum \<Rightarrow> jsstring \<Rightarrow> jsnum" where
  "CalcAdapter_operations this t1 t2 operation =
     (if operation = lit ''add'' then NewCalc_add (calc this) t1 t2
      else if operation = lit ''sub'' then NewCalc_sub (calc this) t1 t2
      else NaN)"


section \<open>Decorator: Text and its decorators\<close>

text \<open>
  \<open>Text\<close> has the field \<open>content\<close>; every decorator has the field \<open>text\<close>
  (here \<open>text_of\<close>), which holds any object with \<open>getContent\<close>. No method of the
  snippet assigns to a field, so objects are values and \<open>getContent\<close> is a function of
  the receiver. \<open>super.getContent()\<close> in a concrete decorator is
  \<open>TextDecorator.getContent\<close> on the same receiver, that is \<open>this.text.getContent()\<close>.
\<close>

datatype component =
    Text (content: jsstring)
  | TextDecorator (text_of: component)
  | BoldDecorator (text_of: component)
  | ItalicDecorator (text_of: component)
  | UnderlineDecorator (text_of: component)

fun getContent :: "component \<Rightarrow> jsstring" where
  "getContent (Text c) = c"
| "getContent (TextDecorator t) = getContent t"
| "getContent (BoldDecorator t) = lit ''<b>'' @ getContent t @ lit ''</b>''"
| "getContent (ItalicDecorator t) = lit ''<i>'' @ getContent t @ lit ''</i>''"
| "getContent (UnderlineDecorator t) = lit ''<u>'' @ getContent t @ lit ''</u>''"


section \<open>Template method: Beverage\<close>

text \<open>
  A method that prints and may throw takes the console and returns the console with the
  outcome. Statements in sequence stop at the first throw.
\<close>

type_synonym step = "console \<Rightarrow> console \<times> (error + unit)"

definition console_log :: "jsstring \<Rightarrow> step" where
  "console_log line out = (out @ [line], Inr ())"

definition throw :: "error \<Rightarrow> step" where
  "throw e out = (out, Inl e)"

definition then_step :: "step \<Rightarrow> step \<Rightarrow> step" where
  "then_step f g out =
     (case f out of
        (out', Inl e) \<Rightarrow> (out', Inl e)
      | (out', Inr u) \<Rightarrow> g out')"

definition msg_boilWater :: jsstring where
  \<comment> \<open>Cyrillic: Kipyatim vodu\<close>
  "msg_boilWater =
     [0x41a, 0x438, 0x43f, 0x44f, 0x442, 0x438, 0x43c, 0x20, 0x432, 0x43e, 0x434, 0x443]"

definition msg_brew_abstract :: jsstring where
  \<comment> \<open>Cyrillic: Metod brew() dolzhen byt' realizovan\<close>
  "msg_brew_abstract =
     [0x41c, 0x435, 0x442, 0x43e, 0x434, 0x20, 0x62, 0x72, 0x65, 0x77, 0x28, 0x29, 0x20,
      0x434, 0x43e, 0x43b, 0x436, 0x435, 0x43d, 0x20, 0x431, 0x44b, 0x442, 0x44c, 0x20,
      0x440, 0x435, 0x430, 0x43b, 0x438, 0x437, 0x43e, 0x432, 0x430, 0x43d]"

definition msg_addCondiments_abstract :: jsstring where
  \<comment> \<open>Cyrillic: Metod addCondiments() dolzhen byt' realizovan\<close>
  "msg_addCondiments_abstract =
     [0x41c, 0x435, 0x442, 0x43e, 0x434, 0x20, 0x61, 0x64, 0x64, 0x43, 0x6f, 0x6e, 0x64,
      0x69, 0x6d, 0x65, 0x6e, 0x74, 0x73, 0x28, 0x29, 0x20, 0x434, 0x43e, 0x43b, 0x436,
      0x435, 0x43d, 0x20, 0x431, 0x44b, 0x442, 0x44c, 0x20, 0x440, 0x435, 0x430, 0x43b,
      0x438, 0x437, 0x43e, 0x432, 0x430, 0x43d]"

definition msg_stir :: jsstring where
  \<comment> \<open>Cyrillic: Peremeshivaem napitok\<close>
  "msg_stir =
     [0x41f, 0x435, 0x440, 0x435, 0x43c, 0x435, 0x448, 0x438, 0x432, 0x430, 0x435, 0x43c,
      0x20, 0x43d, 0x430, 0x43f, 0x438, 0x442, 0x43e, 0x43a]"

definition msg_tea_brew :: jsstring where
  \<comment> \<open>Cyrillic: Zavarivaem chainye list'ya\<close>
  "msg_tea_brew =
     [0x417, 0x430, 0x432, 0x430, 0x440, 0x438, 0x432, 0x430, 0x435, 0x43c, 0x20, 0x447,
      0x430, 0x439, 0x43d, 0x44b, 0x435, 0x20, 0x43b, 0x438, 0x441, 0x442, 0x44c, 0x44f]"

definition msg_tea_addCondiments :: jsstring where
  \<comment> \<open>Cyrillic: Dobavlyaem limon\<close>
  "msg_tea_addCondiments =
     [0x414, 0x43e, 0x431, 0x430, 0x432, 0x43b, 0x44f, 0x435, 0x43c, 0x20, 0x43b, 0x438,
      0x43c, 0x43e, 0x43d]"

definition msg_coffee_brew :: jsstring where
  \<comment> \<open>Cyrillic: Zavarivaem kofe\<close>
  "msg_coffee_brew =
     [0x417, 0x430, 0x432, 0x430, 0x440, 0x438, 0x432, 0x430, 0x435, 0x43c, 0x20, 0x43a,
      0x43e, 0x444, 0x435]"

definition msg_coffee_addCondiments :: jsstring where
  \<comment> \<open>Cyrillic: Dobavlyaem moloko i sakhar\<close>
  "msg_coffee_addCondiments =
     [0x414, 0x43e, 0x431, 0x430, 0x432, 0x43b, 0x44f, 0x435, 0x43c, 0x20, 0x43c, 0x43e,
      0x43b, 0x43e, 0x43a, 0x43e, 0x20, 0x438, 0x20, 0x441, 0x430, 0x445, 0x430, 0x440]"

text \<open>
  A class of the hierarchy is given by the methods it declares itself: \<open>Some m\<close> for a
  method in the class body, \<open>None\<close> for one it leaves to \<open>Beverage\<close>. The subclasses
  of the snippet declare \<open>brew\<close> and \<open>addCondiments\<close> only.
\<close>

record Beverage_class =
  own_brew :: "step option"
  own_addCondiments :: "step option"

definition Beverage :: Beverage_class where
  "Beverage = \<lparr>own_brew = None, own_addCondiments = None\<rparr>"

definition Tea :: Beverage_class where
  "Tea = \<lparr>own_brew = Some (console_log msg_tea_brew),
           own_addCondiments = Some (console_log msg_tea_addCondiments)\<rparr>"

definition Coffee :: Beverage_class where
  "Coffee = \<lparr>own_brew = Some (console_log msg_coffee_brew),
              own_addCondiments = Some (console_log msg_coffee_addCondiments)\<rparr>"

definition Beverage_boilWater :: step where
  "Beverage_boilWater = console_log msg_boilWater"

definition Beverage_brew :: step where
  "Beverage_brew = throw (Error msg_brew_abstract)"

definition Beverage_addCondiments :: step where
  "Beverage_addCondiments = throw (Error msg_addCondiments_abstract)"

definition Beverage_stir :: step where
  "Beverage_stir = console_log msg_stir"

text \<open>\<open>this.brew()\<close> and \<open>this.addCondiments()\<close> dispatch on the receiver's class.\<close>

definition brew :: "Beverage_class \<Rightarrow> step" where
  "brew c = (case own_brew c of Some m \<Rightarrow> m | None \<Rightarrow> Beverage_brew)"

definition addCondiments :: "Beverage_class \<Rightarrow> step" where
  "addCondiments c =
     (case own_addCondiments c of Some m \<Rightarrow> m | None \<Rightarrow> Beverage_addCondiments)"

definition prepare :: "Beverage_class \<Rightarrow> step" where
  "prepare c =
     then_step Beverage_boilWater
       (then_step (brew c)
         (then_step (addCondiments c) Beverage_stir))"


section \<open>Strategy: PaymentStrategy\<close>

definition msg_pay_abstract :: jsstring where
  \<comment> \<open>Cyrillic: Metod pay() dolzhen byt' realizovan\<close>
  "msg_pay_abstract =
     [0x41c, 0x435, 0x442, 0x43e, 0x434, 0x20, 0x70, 0x61, 0x79, 0x28, 0x29, 0x20, 0x434,
      0x43e, 0x43b, 0x436, 0x435, 0x43d, 0x20, 0x431, 0x44b, 0x442, 0x44c, 0x20, 0x440,
      0x435, 0x430, 0x43b, 0x438, 0x437, 0x43e, 0x432, 0x430, 0x43d]"

definition pay_prefix :: jsstring where
  \<comment> \<open>Cyrillic: Oplata, then a space\<close>
  "pay_prefix =
     [0x41e, 0x43f, 0x43b, 0x430, 0x442, 0x430, 0x20]"

definition pay_by_card :: jsstring where
  \<comment> \<open>Cyrillic:  rub. kreditnoi kartoi\<close>
  "pay_by_card =
     [0x20, 0x440, 0x443, 0x431, 0x2e, 0x20, 0x43a, 0x440, 0x435, 0x434, 0x438, 0x442,
      0x43d, 0x43e, 0x439, 0x20, 0x43a, 0x430, 0x440, 0x442, 0x43e, 0x439]"

definition pay_by_paypal :: jsstring where
  \<comment> \<open>Cyrillic:  rub. cherez PayPal\<close>
  "pay_by_paypal =
     [0x20, 0x440, 0x443, 0x431, 0x2e, 0x20, 0x447, 0x435, 0x440, 0x435, 0x437, 0x20, 0x50,
      0x61, 0x79, 0x50, 0x61, 0x6c]"

definition pay_by_crypto :: jsstring where
  \<comment> \<open>Cyrillic:  rub. kriptovalyutoi\<close>
  "pay_by_crypto =
     [0x20, 0x440, 0x443, 0x431, 0x2e, 0x20, 0x43a, 0x440, 0x438, 0x43f, 0x442, 0x43e,
      0x432, 0x430, 0x43b, 0x44e, 0x442, 0x43e, 0x439]"

text \<open>
  The concrete strategies print the amount inside a template literal; the conversion of
  the amount to a string is the language's and is the parameter \<open>toString\<close>.
\<close>

record 'a PaymentStrategy_class =
  own_pay :: "('a \<Rightarrow> step) option"

definition PaymentStrategy :: "'a PaymentStrategy_class" where
  "PaymentStrategy = \<lparr>own_pay = None\<rparr>"

definition CreditCardPayment :: "('a \<Rightarrow> jsstring) \<Rightarrow> 'a PaymentStrategy_class" where
  "CreditCardPayment toString =
     \<lparr>own_pay = Some (\<lambda>amount. console_log (pay_prefix @ toString amount @ pay_by_card))\<rparr>"

definition PayPalPayment :: "('a \<Rightarrow> jsstring) \<Rightarrow> 'a PaymentStrategy_class" where
  "PayPalPayment toString =
     \<lparr>own_pay = Some (\<lambda>amount. console_log (pay_prefix @ toString amount @ pay_by_paypal))\<rparr>"

definition CryptoPayment :: "('a \<Rightarrow> jsstring) \<Rightarrow> 'a PaymentStrategy_class" where
  "CryptoPayment toString =
     \<lparr>own_pay = Some (\<lambda>amount. console_log (pay_prefix @ toString amount @ pay_by_crypto))\<rparr>"

definition PaymentStrategy_pay :: "'a \<Rightarrow> step" where
  "PaymentStrategy_pay amount = throw (Error msg_pay_abstract)"

definition pay :: "'a PaymentStrategy_class \<Rightarrow> 'a \<Rightarrow> step" where
  "pay c amount = (case own_pay c of Some m \<Rightarrow> m amount | None \<Rightarrow> PaymentStrategy_pay amount)"


section \<open>Observer: Subject and Observer\<close>

text \<open>
  An action is an object with a \<open>type\<close> and, for \<open>MULTI_PLUS\<close>, a \<open>value\<close>.
  \<open>action_type\<close> is \<open>None\<close> when the object has no string there (as in
  \<open>{}\<close>, where \<open>type\<close> reads as \<open>undefined\<close>): the \<open>switch\<close> compares with
  \<open>===\<close>, so such an action matches no \<open>case\<close>. A missing \<open>value\<close> reads as
  \<open>undefined\<close>, which \<open>+=\<close> converts to NaN.
\<close>

record action =
  action_type :: "jsstring option"
  action_value :: "jsnum option"

definition to_number :: "jsnum option \<Rightarrow> jsnum" where
  "to_number v = (case v of None \<Rightarrow> NaN | Some n \<Rightarrow> n)"

record Observer =
  state :: jsnum
  initialState :: jsnum

text \<open>The constructor's parameter defaults to 1 when the argument is left out.\<close>

definition new_Observer :: "jsnum option \<Rightarrow> Observer" where
  "new_Observer arg =
     (let state = (case arg of None \<Rightarrow> Num 1 | Some s \<Rightarrow> s)
      in \<lparr>state = state, initialState = state\<rparr>)"

definition Observer_update :: "Observer \<Rightarrow> action \<Rightarrow> Observer" where
  "Observer_update this action =
     (if action_type action = Some (lit ''PLUS'') then
        this\<lparr>state := js_add (state this) (Num 1)\<rparr>
      else if action_type action = Some (lit ''MINUS'') then
        this\<lparr>state := js_sub (state this) (Num 1)\<rparr>
      else if action_type action = Some (lit ''MULTI_PLUS'') then
        this\<lparr>state := js_add (state this) (to_number (action_value action))\<rparr>
      else
        this\<lparr>state := initialState this\<rparr>)"

text \<open>
  Observers are shared objects: the subject holds references, and the same observer may be
  reached through several of them. A reference is a number and the heap gives the object a
  reference denotes. \<open>calls\<close> is no state of the program: it is the record of the
  invocations of \<open>update\<close>, in the order in which they happen. \<open>forEach\<close> visits
  the entries of the array in index order, and \<open>update\<close> does not touch the array.
\<close>

type_synonym ref = nat

record Subject =
  observers :: "ref list"

record observer_world =
  heap :: "ref \<Rightarrow> Observer"
  calls :: "(ref \<times> action) list"

definition new_Subject :: Subject where
  "new_Subject = \<lparr>observers = []\<rparr>"

definition Subject_subscribe :: "Subject \<Rightarrow> ref \<Rightarrow> Subject" where
  "Subject_subscribe this observer = this\<lparr>observers := observers this @ [observer]\<rparr>"

definition Subject_unsubscribe :: "Subject \<Rightarrow> ref \<Rightarrow> Subject" where
  "Subject_unsubscribe this observer =
     this\<lparr>observers := filter (\<lambda>obs. obs \<noteq> observer) (observers this)\<rparr>"

definition call_update :: "ref \<Rightarrow> action \<Rightarrow> observer_world \<Rightarrow> observer_world" where
  "call_update observer action w =
     w\<lparr>heap := (heap w)(observer := Observer_update (heap w observer) action),
       calls := calls w @ [(observer, action)]\<rparr>"

definition Subject_fire :: "Subject \<Rightarrow> action \<Rightarrow> observer_world \<Rightarrow> observer_world" where
  "Subject_fire this action w =
     foldl (\<lambda>w' observer. call_update observer action w') w (observers this)"

definition calls_to :: "ref \<Rightarrow> (ref \<times> action) list \<Rightarrow> nat" where
  "calls_to observer cs = length (filter (\<lambda>c. fst c = observer) cs)"

text \<open>
  The heap of the snippet's own run: \<open>obs1 = new Observer()\<close> is reference 0 and
  \<open>obs2 = new Observer(10)\<close> is reference 1 (and every further reference); no call
  has been made yet.
\<close>

definition snippet_world :: observer_world where
  "snippet_world =
     \<lparr>heap = (\<lambda>r. if r = 0 then new_Observer None else new_Observer (Some (Num 10))),
      calls = []\<rparr>"

text \<open>The action literals the snippet fires.\<close>

definition PLUS :: action where
  "PLUS = \<lparr>action_type = Some (lit ''PLUS''), action_value = None\<rparr>"

definition MINUS :: action where
  "MINUS = \<lparr>action_type = Some (lit ''MINUS''), action_value = None\<rparr>"

definition MULTI_PLUS :: "jsnum \<Rightarrow> action" where
  "MULTI_PLUS v = \<lparr>action_type = Some (lit ''MULTI_PLUS''), action_value = Some v\<rparr>"


section \<open>Observer: NewsPublisher and NewsSubscriber\<close>

definition msg_got_news :: jsstring where
  \<comment> \<open>Cyrillic:  poluchil novost':  followed by a double quote\<close>
  "msg_got_news =
     [0x20, 0x43f, 0x43e, 0x43b, 0x443, 0x447, 0x438, 0x43b, 0x20, 0x43d, 0x43e, 0x432,
      0x43e, 0x441, 0x442, 0x44c, 0x3a, 0x20, 0x22]"

definition double_quote :: jsstring where
  "double_quote = [0x22]"

text \<open>\<open>news\<close> starts as \<open>null\<close>, which a template literal prints as \<open>null\<close>.\<close>

definition show_news :: "jsstring option \<Rightarrow> jsstring" where
  "show_news latest = (case latest of None \<Rightarrow> lit ''null'' | Some text \<Rightarrow> text)"

record NewsSubscriber =
  name :: jsstring

record NewsPublisher =
  subscribers :: "ref list"
  news :: "jsstring option"

definition new_NewsPublisher :: NewsPublisher where
  "new_NewsPublisher = \<lparr>subscribers = [], news = None\<rparr>"

definition NewsPublisher_subscribe :: "NewsPublisher \<Rightarrow> ref \<Rightarrow> NewsPublisher" where
  "NewsPublisher_subscribe this observer =
     this\<lparr>subscribers := subscribers this @ [observer]\<rparr>"

definition NewsPublisher_unsubscribe :: "NewsPublisher \<Rightarrow> ref \<Rightarrow> NewsPublisher" where
  "NewsPublisher_unsubscribe this observer =
     this\<lparr>subscribers := filter (\<lambda>sub. sub \<noteq> observer) (subscribers this)\<rparr>"

definition NewsSubscriber_update :: "NewsSubscriber \<Rightarrow> jsstring option \<Rightarrow> console \<Rightarrow> console" where
  "NewsSubscriber_update this latest out =
     out @ [name this @ msg_got_news @ show_news latest @ double_quote]"

definition NewsPublisher_notify ::
  "NewsPublisher \<Rightarrow> (ref \<Rightarrow> NewsSubscriber) \<Rightarrow> console \<Rightarrow> console" where
  "NewsPublisher_notify this subscriber_at out =
     foldl (\<lambda>out' subscriber. NewsSubscriber_update (subscriber_at subscriber) (news this) out')
       out (subscribers this)"

definition NewsPublisher_setNews ::
  "NewsPublisher \<Rightarrow> jsstring \<Rightarrow> (ref \<Rightarrow> NewsSubscriber) \<Rightarrow> console \<Rightarrow> NewsPublisher \<times> console" where
  "NewsPublisher_setNews this text subscriber_at out =
     (let this' = this\<lparr>news := Some text\<rparr>
      in (this', NewsPublisher_notify this' subscriber_at out))"


section \<open>Singleton: Database\<close>

definition msg_connect :: jsstring where
  \<comment> \<open>Cyrillic: Podklyuchenie k baze dannykh...\<close>
  "msg_connect =
     [0x41f, 0x43e, 0x434, 0x43a, 0x43b, 0x44e, 0x447, 0x435, 0x43d, 0x438, 0x435, 0x20,
      0x43a, 0x20, 0x431, 0x430, 0x437, 0x435, 0x20, 0x434, 0x430, 0x43d, 0x43d, 0x44b,
      0x445, 0x2e, 0x2e, 0x2e]"

definition msg_query :: jsstring where
  \<comment> \<open>Cyrillic: Vypolnyaem zapros:  with a trailing space\<close>
  "msg_query =
     [0x412, 0x44b, 0x43f, 0x43e, 0x43b, 0x43d, 0x44f, 0x435, 0x43c, 0x20, 0x437, 0x430,
      0x43f, 0x440, 0x43e, 0x441, 0x3a, 0x20]"

text \<open>
  The program state of the snippet: the static field \<open>Database.instance\<close>
  (\<open>None\<close> while it is \<open>undefined\<close>), the number of \<open>Database\<close> objects created so
  far (a new object gets the next number as its reference) and the console.
\<close>

record Database_world =
  Database_instance :: "ref option"
  Database_created :: nat
  Database_console :: console

definition Database_start :: Database_world where
  "Database_start = \<lparr>Database_instance = None, Database_created = 0, Database_console = []\<rparr>"

definition new_Database :: "Database_world \<Rightarrow> Database_world \<times> ref" where
  "new_Database w =
     (w\<lparr>Database_created := Suc (Database_created w),
        Database_console := Database_console w @ [msg_connect]\<rparr>,
      Database_created w)"

definition Database_getInstance :: "Database_world \<Rightarrow> Database_world \<times> ref option" where
  "Database_getInstance w =
     (let w' = (if Database_instance w = None
                then (case new_Database w of (w1, r) \<Rightarrow> w1\<lparr>Database_instance := Some r\<rparr>)
                else w)
      in (w', Database_instance w'))"

definition Database_query :: "ref \<Rightarrow> jsstring \<Rightarrow> Database_world \<Rightarrow> Database_world" where
  "Database_query this sql w = w\<lparr>Database_console := Database_console w @ [msg_query @ sql]\<rparr>"

text \<open>
  A client is a sequence of calls: \<open>Database.getInstance()\<close>, or \<open>query(sql)\<close> on the
  instance. The constructor is private, so a client holds an instance only after a call of
  \<open>getInstance\<close>; a \<open>query\<close> before that has no receiver and is skipped.
  \<open>Database_run\<close> performs the calls in order from a given state and collects what the
  calls of \<open>getInstance\<close> returned.
\<close>

datatype Database_call = GetInstance | Query jsstring

fun Database_run ::
  "Database_call list \<Rightarrow> Database_world \<Rightarrow> Database_world \<times> ref option list" where
  "Database_run [] w = (w, [])"
| "Database_run (GetInstance # cs) w =
     (case Database_getInstance w of (w', r) \<Rightarrow>
        (case Database_run cs w' of (w'', rs) \<Rightarrow> (w'', r # rs)))"
| "Database_run (Query sql # cs) w =
     (case Database_instance w of
        None \<Rightarrow> Database_run cs w
      | Some db \<Rightarrow> Database_run cs (Database_query db sql w))"

definition connections :: "console \<Rightarrow> nat" where
  "connections out = length (filter (\<lambda>line. line = msg_connect) out)"


section \<open>Singleton: Config behind SingletonProxy\<close>

text \<open>
  A \<open>Config\<close> object has the field \<open>settings\<close> once the constructor assigned it; the
  empty object literal is the empty list of entries. \<open>new\<close> allocates the receiver
  before the constructor body runs, so every \<open>new Config()\<close> adds an object to the
  heap, also when the body returns the stored instance instead.
\<close>

record Config =
  settings :: "(jsstring \<times> jsstring) list option"

record Config_world =
  Config_instance :: "ref option"
  Config_heap :: "Config list"

definition Config_start :: Config_world where
  "Config_start = \<lparr>Config_instance = None, Config_heap = []\<rparr>"

definition new_Config :: "Config_world \<Rightarrow> Config_world \<times> ref" where
  "new_Config w =
     (let this = length (Config_heap w);
          w1 = w\<lparr>Config_heap := Config_heap w @ [\<lparr>settings = None\<rparr>]\<rparr>
      in case Config_instance w1 of
           Some existing \<Rightarrow> (w1, existing)
         | None \<Rightarrow>
             (w1\<lparr>Config_heap := (Config_heap w1)[this := \<lparr>settings = Some []\<rparr>],
                 Config_instance := Some this\<rparr>,
              this))"

text \<open>The \<open>construct\<close> trap of the proxy, with \<open>Config\<close> as its target.\<close>

definition new_SingletonProxy :: "Config_world \<Rightarrow> Config_world \<times> ref option" where
  "new_SingletonProxy w =
     (let w' = (if Config_instance w = None
                then (case new_Config w of (w1, r) \<Rightarrow> w1\<lparr>Config_instance := Some r\<rparr>)
                else w)
      in (w', Config_instance w'))"

datatype Config_call = NewSingletonProxy | NewConfig

fun Config_run :: "Config_call list \<Rightarrow> Config_world \<Rightarrow> Config_world \<times> ref option list" where
  "Config_run [] w = (w, [])"
| "Config_run (NewSingletonProxy # cs) w =
     (case new_SingletonProxy w of (w', r) \<Rightarrow>
        (case Config_run cs w' of (w'', rs) \<Rightarrow> (w'', r # rs)))"
| "Config_run (NewConfig # cs) w =
     (case new_Config w of (w', r) \<Rightarrow>
        (case Config_run cs w' of (w'', rs) \<Rightarrow> (w'', Some r # rs)))"


section \<open>Facade: AudioPlayerFacade\<close>

definition msg_decode :: jsstring where
  \<comment> \<open>Cyrillic: Dekodiruem audiofail:  with a trailing space\<close>
  "msg_decode =
     [0x414, 0x435, 0x43a, 0x43e, 0x434, 0x438, 0x440, 0x443, 0x435, 0x43c, 0x20, 0x430,
      0x443, 0x434, 0x438, 0x43e, 0x444, 0x430, 0x439, 0x43b, 0x3a, 0x20]"

definition msg_process :: jsstring where
  \<comment> \<open>Cyrillic: Obrabatyvaem audiopotok...\<close>
  "msg_process =
     [0x41e, 0x431, 0x440, 0x430, 0x431, 0x430, 0x442, 0x44b, 0x432, 0x430, 0x435, 0x43c,
      0x20, 0x430, 0x443, 0x434, 0x438, 0x43e, 0x43f, 0x43e, 0x442, 0x43e, 0x43a, 0x2e,
      0x2e, 0x2e]"

definition msg_play :: jsstring where
  \<comment> \<open>Cyrillic: Vosproizvodim audio:  with a trailing space\<close>
  "msg_play =
     [0x412, 0x43e, 0x441, 0x43f, 0x440, 0x43e, 0x438, 0x437, 0x432, 0x43e, 0x434, 0x438,
      0x43c, 0x20, 0x430, 0x443, 0x434, 0x438, 0x43e, 0x3a, 0x20]"

text \<open>
  The three subsystem classes have no fields. The facade's field \<open>output\<close> is
  \<open>output_of\<close> here.
\<close>

datatype AudioDecoder = AudioDecoder_object

datatype AudioProcessor = AudioProcessor_object

datatype AudioOutput = AudioOutput_object

record AudioPlayerFacade =
  decoder :: AudioDecoder
  processor :: AudioProcessor
  output_of :: AudioOutput

definition new_AudioPlayerFacade :: AudioPlayerFacade where
  "new_AudioPlayerFacade =
     \<lparr>decoder = AudioDecoder_object, processor = AudioProcessor_object,
      output_of = AudioOutput_object\<rparr>"

definition AudioDecoder_decode :: "AudioDecoder \<Rightarrow> jsstring \<Rightarrow> console \<Rightarrow> console \<times> jsstring" where
  "AudioDecoder_decode this file out = (out @ [msg_decode @ file], lit ''decoded_audio_stream'')"

definition AudioProcessor_process ::
  "AudioProcessor \<Rightarrow> jsstring \<Rightarrow> console \<Rightarrow> console \<times> jsstring" where
  "AudioProcessor_process this stream out = (out @ [msg_process], lit ''processed_audio'')"

definition AudioOutput_play :: "AudioOutput \<Rightarrow> jsstring \<Rightarrow> console \<Rightarrow> console" where
  "AudioOutput_play this audio out = out @ [msg_play @ audio]"

definition AudioPlayerFacade_playSong :: "AudioPlayerFacade \<Rightarrow> jsstring \<Rightarrow> console \<Rightarrow> console" where
  "AudioPlayerFacade_playSong this filename out =
     (case AudioDecoder_decode (decoder this) filename out of (out1, stream) \<Rightarrow>
        (case AudioProcessor_process (processor this) stream out1 of (out2, processedAudio) \<Rightarrow>
           AudioOutput_play (output_of this) processedAudio out2))"


section \<open>Facade: TaskFacade\<close>

text \<open>
  \<open>SimpleRecord\<close> belongs to the platform the snippet runs on, not to the repository.
  What \<open>insert()\<close> returns for a table, and whether \<open>!!\<close> finds that value truthy,
  are parameters.
\<close>

record 'r SimpleRecord_api =
  SimpleRecord_insert :: "jsstring \<Rightarrow> 'r"
  truthy :: "'r \<Rightarrow> bool"

datatype 'r jsvalue = Inserted 'r | Boolean bool

record TaskApproval =
  approval_taskId :: "jsstring option"

record TaskIndication =
  indication_taskId :: "jsstring option"

record TaskNotification =
  notification_taskId :: "jsstring option"

text \<open>The constructors store their argument; \<open>None\<close> is a call without one.\<close>

definition new_TaskApproval :: "jsstring option \<Rightarrow> TaskApproval" where
  "new_TaskApproval taskId = \<lparr>approval_taskId = taskId\<rparr>"

definition new_TaskIndication :: "jsstring option \<Rightarrow> TaskIndication" where
  "new_TaskIndication taskId = \<lparr>indication_taskId = taskId\<rparr>"

definition new_TaskNotification :: "jsstring option \<Rightarrow> TaskNotification" where
  "new_TaskNotification taskId = \<lparr>notification_taskId = taskId\<rparr>"

definition TaskApproval_createApproval ::
  "'r SimpleRecord_api \<Rightarrow> TaskApproval \<Rightarrow> error + 'r jsvalue" where
  "TaskApproval_createApproval api this = Inr (Inserted (SimpleRecord_insert api (lit ''approval'')))"

definition TaskIndication_createIndication ::
  "'r SimpleRecord_api \<Rightarrow> TaskIndication \<Rightarrow> error + 'r jsvalue" where
  "TaskIndication_createIndication api this =
     Inr (Inserted (SimpleRecord_insert api (lit ''indication'')))"

definition TaskNotification_sendNotification ::
  "'r SimpleRecord_api \<Rightarrow> TaskNotification \<Rightarrow> error + 'r jsvalue" where
  "TaskNotification_sendNotification api this =
     Inr (Boolean (truthy api (SimpleRecord_insert api (lit ''notification''))))"

text \<open>
  A method declared in a class body without \<open>static\<close> is a property of the prototype
  and is reached through an instance. The class object itself has the members declared
  \<open>static\<close>; the three helper classes declare none, so looking any of the method names
  up on the class gives \<open>undefined\<close>, and calling \<open>undefined\<close> throws a
  \<open>TypeError\<close>. The members that every function has (\<open>call\<close>, \<open>toString\<close>
  and the like) are left out: the facade looks up none of them.
\<close>

datatype class_object = TaskApproval_class | TaskIndication_class | TaskNotification_class

definition static_member ::
  "class_object \<Rightarrow> jsstring \<Rightarrow> ('r SimpleRecord_api \<Rightarrow> error + 'r jsvalue) option" where
  "static_member c member = None"

definition call_static ::
  "'r SimpleRecord_api \<Rightarrow> class_object \<Rightarrow> jsstring \<Rightarrow> error + 'r jsvalue" where
  "call_static api c member =
     (case static_member c member of
        None \<Rightarrow> Inl TypeError
      | Some m \<Rightarrow> m api)"

definition and_then :: "error + 'a \<Rightarrow> ('a \<Rightarrow> error + 'b) \<Rightarrow> error + 'b" where
  "and_then r f = (case r of Inl e \<Rightarrow> Inl e | Inr v \<Rightarrow> f v)"

record TaskFacade =
  taskApproval :: TaskApproval
  taskIndication :: TaskIndication
  taskNotification :: TaskNotification

definition new_TaskFacade :: TaskFacade where
  "new_TaskFacade =
     \<lparr>taskApproval = new_TaskApproval None,
      taskIndication = new_TaskIndication None,
      taskNotification = new_TaskNotification None\<rparr>"

text \<open>
  The body calls the three methods on the classes \<open>TaskApproval\<close>,
  \<open>TaskIndication\<close> and \<open>TaskNotification\<close>, not on the fields of \<open>this\<close>.
\<close>

definition TaskFacade_startBusinessProcess ::
  "'r SimpleRecord_api \<Rightarrow> TaskFacade \<Rightarrow> error + 'r jsvalue list" where
  "TaskFacade_startBusinessProcess api this =
     and_then (call_static api TaskApproval_class (lit ''createApproval'')) (\<lambda>approval.
     and_then (call_static api TaskIndication_class (lit ''createIndication'')) (\<lambda>indication.
     and_then (call_static api TaskNotification_class (lit ''sendNotification''))
       (\<lambda>notificationIsSend.
     Inr [approval, indication, notificationIsSend])))"




section \<open>Properties of the numbers\<close>

text \<open>
  Integers below \<open>2^53\<close> in magnitude are doubles, and sums and differences of their
  literals are exact as long as the operands are in this range.
\<close>

lemma round_double_exact:
  assumes "\<bar>s\<bar> < 2 ^ 53 * 2 ^ 1074" and "2 ^ 1074 dvd s"
  shows "round_double s = Finite s"
proof (cases "bitlen \<bar>s\<bar> - 53 \<le> 0")
  case True
  then show ?thesis by (simp add: round_double_def)
next
  case False
  define k where "k = nat (bitlen \<bar>s\<bar> - 53)"
  have "\<bar>s\<bar> < 2 ^ nat 1127"
    using assms(1) by (simp flip: power_add)
  then have "bitlen \<bar>s\<bar> \<le> 1127"
    by (simp add: bitlen_le_iff_power)
  then have "k \<le> 1074"
    by (simp add: k_def)
  then have "(2::int) ^ k dvd 2 ^ 1074"
    by (rule le_imp_power_dvd)
  then have dvd: "(2::int) ^ k dvd s"
    using assms(2) by (rule dvd_trans)
  then have r: "s mod 2 ^ k = 0" and q: "s div 2 ^ k * 2 ^ k = s"
    by simp_all
  have small: "s < 2 ^ 2098" "- (2 ^ 2098) < s"
    using assms(1) by simp_all
  show ?thesis
    using False r q small by (simp add: round_double_def Let_def flip: k_def)
qed

lemma Num_safe: "\<bar>i\<bar> < 2 ^ 53 \<Longrightarrow> Num i = Finite (i * 2 ^ 1074)"
  unfolding Num_def by (rule round_double_exact) (simp_all add: abs_mult)

lemma js_add_Num:
  "\<bar>i\<bar> < 2 ^ 53 \<Longrightarrow> \<bar>j\<bar> < 2 ^ 53 \<Longrightarrow> js_add (Num i) (Num j) = Num (i + j)"
  by (simp add: Num_safe) (simp add: Num_def distrib_right)

lemma js_sub_Num:
  "\<bar>i\<bar> < 2 ^ 53 \<Longrightarrow> \<bar>j\<bar> < 2 ^ 53 \<Longrightarrow> js_sub (Num i) (Num j) = Num (i - j)"
  by (simp add: Num_safe js_sub_def) (simp add: Num_def left_diff_distrib)

text \<open>Rounding a value \<open>n * 2^e\<close> whose \<open>n\<close> has \<open>53 + k\<close> bits looks at \<open>n\<close> alone.\<close>

lemma round_double_scaled:
  fixes n :: int and e k :: nat
  assumes bits: "bitlen \<bar>n\<bar> = 53 + int k" and k: "0 < k"
  shows "round_double (n * 2 ^ e) =
     (let m = (if 2 * (n mod 2 ^ k) < 2 ^ k then n div 2 ^ k
               else if 2 ^ k < 2 * (n mod 2 ^ k) then n div 2 ^ k + 1
               else if even (n div 2 ^ k) then n div 2 ^ k else n div 2 ^ k + 1)
      in if 2 ^ 2098 \<le> m * 2 ^ (k + e) then PosInf
         else if m * 2 ^ (k + e) \<le> - (2 ^ 2098) then NegInf
         else Finite (m * 2 ^ (k + e)))"
proof -
  have "n \<noteq> 0"
    using bits by auto
  then have "bitlen (\<bar>n\<bar> * 2 ^ e) = bitlen \<bar>n\<bar> + int e"
    by simp
  then have len: "bitlen \<bar>n * 2 ^ e\<bar> - 53 = int (k + e)"
    using bits by (simp add: abs_mult)
  have pos: "(0::int) < 2 ^ e"
    by simp
  have q: "n * 2 ^ e div 2 ^ (k + e) = n div 2 ^ k"
    by (simp add: power_add)
  have r: "n * 2 ^ e mod 2 ^ (k + e) = n mod 2 ^ k * 2 ^ e"
    by (simp add: power_add)
  have lt: "2 * (n mod 2 ^ k * 2 ^ e) < 2 ^ (k + e) \<longleftrightarrow> 2 * (n mod 2 ^ k) < 2 ^ k"
    using mult_less_cancel_right_pos [OF pos, of "2 * (n mod 2 ^ k)" "2 ^ k"]
    by (simp add: power_add mult.assoc)
  have gt: "2 ^ (k + e) < 2 * (n mod 2 ^ k * 2 ^ e) \<longleftrightarrow> 2 ^ k < 2 * (n mod 2 ^ k)"
    using mult_less_cancel_right_pos [OF pos, of "2 ^ k" "2 * (n mod 2 ^ k)"]
    by (simp add: power_add mult.assoc)
  have nonpos: "\<not> int (k + e) \<le> 0"
    using k by simp
  show ?thesis
    unfolding round_double_def len Let_def
    by (simp only: nonpos if_False nat_int q r lt gt)
qed

text \<open>
  Beyond that range the sum is rounded: \<open>2^53 + 1\<close> is \<open>2^53\<close>, twice
  \<open>2^1023\<close> is \<open>Infinity\<close>, and the doubles nearest to 0.1 and 0.2, which are
  \<open>7205759403792794\<close> times \<open>2^-56\<close> and \<open>2^-55\<close>, add up to
  \<open>5404319552844596 * 2^-54\<close>, printed as 0.30000000000000004.
\<close>

lemma js_add_rounds_to_even: "js_add (Num (2 ^ 53)) (Num 1) = Num (2 ^ 53)"
proof -
  have one: "Num 1 = Finite (1 * 2 ^ 1074)"
    by (rule Num_safe) simp
  have "bitlen \<bar>2 ^ 53\<bar> = 53 + int 1"
    using bitlen_twopow_add_eq [of 0 53] by simp
  from round_double_scaled [OF this, of 1074]
  have big: "Num (2 ^ 53) = Finite (2 ^ 53 * 2 ^ 1074)"
    by (simp add: Num_def)
  have "bitlen \<bar>2 ^ 53 + 1\<bar> = 53 + int 1"
    using bitlen_twopow_add_eq [of 1 53] by simp
  from round_double_scaled [OF this, of 1074]
  have "round_double ((2 ^ 53 + 1) * 2 ^ 1074) = Finite (2 ^ 53 * 2 ^ 1074)"
    by simp
  then show ?thesis
    using one big by (simp add: distrib_right)
qed

lemma js_add_overflows: "js_add (Num (2 ^ 1023)) (Num (2 ^ 1023)) = PosInf"
proof -
  have exact: "round_double (2 ^ 1023 * 2 ^ 1074) = Finite (2 ^ 1023 * 2 ^ 1074)"
  proof -
    have "bitlen \<bar>2 ^ 53\<bar> = 53 + int 1"
      using bitlen_twopow_add_eq [of 0 53] by simp
    from round_double_scaled [OF this, of "970 + 1074"] show ?thesis
      by simp
  qed
  have "bitlen \<bar>2 ^ 53\<bar> = 53 + int 1"
    using bitlen_twopow_add_eq [of 0 53] by simp
  from round_double_scaled [OF this, of "971 + 1074"]
  have "round_double (2 ^ 1023 * 2 ^ 1074 + 2 ^ 1023 * 2 ^ 1074) = PosInf"
    by simp
  then show ?thesis
    using exact by (simp add: Num_def)
qed

lemma js_add_tenths:
  "js_add (Finite (7205759403792794 * 2 ^ 1018)) (Finite (7205759403792794 * 2 ^ 1019))
     = Finite (5404319552844596 * 2 ^ 1020)"
proof -
  have "bitlen \<bar>21617278211378382\<bar> = 53 + int 2"
    using bitlen_twopow_add_eq [of 3602879701896398 54] by simp
  from round_double_scaled [OF this, of 1018]
  have "round_double (21617278211378382 * 2 ^ 1018) = Finite (5404319552844596 * 2 ^ 1020)"
    by simp
  then show ?thesis
    by simp
qed


section \<open>Properties of the adapter\<close>

text \<open>
  C1. The adapter doctest: on a freshly constructed \<open>CalcAdapter\<close>,
  \<open>operations(25, 10, 'sub')\<close> is routed to \<open>NewCalc.sub\<close> and returns 15.
\<close>

theorem adapter_doctest_sub:
  "CalcAdapter_operations new_CalcAdapter (Num 25) (Num 10) (lit ''sub'') = Num 15
   \<and> CalcAdapter_operations new_CalcAdapter (Num 25) (Num 10) (lit ''sub'')
       = NewCalc_sub (calc new_CalcAdapter) (Num 25) (Num 10)
   \<and> Num 15 = Finite (15 * 2 ^ 1074)"
  using Num_safe [of 15]
  by (simp add: CalcAdapter_operations_def NewCalc_sub_def js_sub_Num lit_def)

text \<open>
  C8. \<open>OldCalc.operations\<close> and \<open>CalcAdapter.operations\<close> are extensionally equal:
  for all numbers \<open>t1\<close>, \<open>t2\<close> and every operation string both return \<open>t1 + t2\<close>
  for \<open>'add'\<close>, \<open>t1 - t2\<close> for \<open>'sub'\<close> and NaN otherwise, where \<open>+\<close> and
  \<open>-\<close> are the rounded operations of doubles.
\<close>

theorem adapter_equals_OldCalc:
  "OldCalc_operations new_OldCalc t1 t2 operation
     = CalcAdapter_operations new_CalcAdapter t1 t2 operation
   \<and> CalcAdapter_operations new_CalcAdapter t1 t2 operation
       = (if operation = lit ''add'' then js_add t1 t2
          else if operation = lit ''sub'' then js_sub t1 t2
          else NaN)"
  by (simp add: OldCalc_operations_def CalcAdapter_operations_def NewCalc_add_def
      NewCalc_sub_def)


section \<open>Properties of the decorators\<close>

text \<open>
  C5. The decorator doctest: \<open>new BoldDecorator(new Text('Hello World')).getContent()\<close>
  is \<open><b>Hello World</b>\<close>, and the wrapped \<open>Text\<close> still has the content
  \<open>Hello World\<close>.
\<close>

theorem decorator_doctest_bold:
  "getContent (BoldDecorator (Text (lit ''Hello World''))) = lit ''<b>Hello World</b>''
   \<and> text_of (BoldDecorator (Text (lit ''Hello World''))) = Text (lit ''Hello World'')
   \<and> content (text_of (BoldDecorator (Text (lit ''Hello World'')))) = lit ''Hello World''
   \<and> getContent (text_of (BoldDecorator (Text (lit ''Hello World'')))) = lit ''Hello World''"
  by (simp add: lit_def)

text \<open>
  C6. Decorators compose: for every string \<open>s\<close>, underline around italic around bold
  around \<open>Text(s)\<close> gives \<open><u><i><b>\<close>, then \<open>s\<close>, then \<open></b></i></u>\<close>;
  each wrapper puts its own tag around the result of the object it wraps, whatever that
  object is.
\<close>

theorem decorator_chain:
  "getContent (UnderlineDecorator (ItalicDecorator (BoldDecorator (Text s))))
     = lit ''<u>'' @ lit ''<i>'' @ lit ''<b>'' @ s @ lit ''</b>'' @ lit ''</i>'' @ lit ''</u>''
   \<and> getContent
        (UnderlineDecorator (ItalicDecorator (BoldDecorator (Text (lit ''Decorator Pattern'')))))
     = lit ''<u><i><b>Decorator Pattern</b></i></u>''
   \<and> getContent (BoldDecorator t) = lit ''<b>'' @ getContent t @ lit ''</b>''
   \<and> getContent (ItalicDecorator t) = lit ''<i>'' @ getContent t @ lit ''</i>''
   \<and> getContent (UnderlineDecorator t) = lit ''<u>'' @ getContent t @ lit ''</u>''"
  by (simp add: lit_def)


section \<open>Properties of the abstract methods\<close>

lemma step_simps:
  "console_log line out = (out @ [line], Inr ())"
  "throw e out = (out, Inl e)"
  by (simp_all add: console_log_def throw_def)

text \<open>The subclasses of the snippet run all four steps in the order of \<open>prepare\<close>.\<close>

lemma Tea_prepare:
  "prepare Tea out
     = (out @ [msg_boilWater, msg_tea_brew, msg_tea_addCondiments, msg_stir], Inr ())"
  by (simp add: prepare_def then_step_def Tea_def brew_def addCondiments_def
      Beverage_boilWater_def Beverage_stir_def step_simps)

lemma Coffee_prepare:
  "prepare Coffee out
     = (out @ [msg_boilWater, msg_coffee_brew, msg_coffee_addCondiments, msg_stir], Inr ())"
  by (simp add: prepare_def then_step_def Coffee_def brew_def addCondiments_def
      Beverage_boilWater_def Beverage_stir_def step_simps)

text \<open>A class that declares \<open>pay\<close> prints its line and does not throw.\<close>

lemma concrete_strategies_print:
  "pay (CreditCardPayment toString) amount out
     = (out @ [pay_prefix @ toString amount @ pay_by_card], Inr ())"
  "pay (PayPalPayment toString) amount out
     = (out @ [pay_prefix @ toString amount @ pay_by_paypal], Inr ())"
  "pay (CryptoPayment toString) amount out
     = (out @ [pay_prefix @ toString amount @ pay_by_crypto], Inr ())"
  by (simp_all add: pay_def CreditCardPayment_def PayPalPayment_def CryptoPayment_def
      step_simps)

text \<open>
  C4. The abstract-method stand-ins throw when not overridden: for a receiver whose class
  does not declare \<open>brew\<close> (or \<open>addCondiments\<close>), the call throws the \<open>Error\<close>
  of \<open>Beverage\<close> and prints nothing; \<open>pay(amount)\<close> of a class that does not declare
  it throws for every amount; and \<open>prepare()\<close> on such a receiver, a plain
  \<open>Beverage\<close> in particular, prints the boiling of the water and then throws the error
  of \<open>brew\<close>, so neither \<open>addCondiments\<close> nor \<open>stir\<close> runs.
\<close>

theorem abstract_methods_throw:
  "(own_brew c = None \<longrightarrow> brew c out = (out, Inl (Error msg_brew_abstract)))
   \<and> (own_addCondiments c = None \<longrightarrow>
        addCondiments c out = (out, Inl (Error msg_addCondiments_abstract)))
   \<and> (own_pay p = None \<longrightarrow> pay p amount out = (out, Inl (Error msg_pay_abstract)))
   \<and> (own_brew c = None \<longrightarrow>
        prepare c out = (out @ [msg_boilWater], Inl (Error msg_brew_abstract)))
   \<and> prepare Beverage out = (out @ [msg_boilWater], Inl (Error msg_brew_abstract))"
  by (simp add: brew_def addCondiments_def pay_def prepare_def then_step_def Beverage_def
      Beverage_brew_def Beverage_addCondiments_def PaymentStrategy_pay_def
      Beverage_boilWater_def step_simps)

theorem abstract_methods_throw_witness:
  "brew Beverage [] = ([], Inl (Error msg_brew_abstract))
   \<and> addCondiments Beverage [] = ([], Inl (Error msg_addCondiments_abstract))
   \<and> pay PaymentStrategy (Num 1500) [] = ([], Inl (Error msg_pay_abstract))
   \<and> prepare Beverage [] = ([msg_boilWater], Inl (Error msg_brew_abstract))"
  using abstract_methods_throw [of Beverage "[]" PaymentStrategy "Num 1500"]
  by (simp add: Beverage_def PaymentStrategy_def)


section \<open>Properties of the facades\<close>

text \<open>
  \<open>AudioPlayerFacade.playSong\<close> forwards to the three objects its constructor stored:
  the console shows the decoder, the processor and the output, in this order.
\<close>

lemma AudioPlayerFacade_forwards:
  "AudioPlayerFacade_playSong new_AudioPlayerFacade filename out
     = out @ [msg_decode @ filename, msg_process, msg_play @ lit ''processed_audio'']"
  by (simp add: AudioPlayerFacade_playSong_def AudioDecoder_decode_def
      AudioProcessor_process_def AudioOutput_play_def)

text \<open>
  Called on the objects that the constructor of \<open>TaskFacade\<close> stored, the three helper
  methods return their results.
\<close>

lemma TaskFacade_helpers_by_instance:
  "TaskApproval_createApproval api (taskApproval new_TaskFacade)
     = Inr (Inserted (SimpleRecord_insert api (lit ''approval'')))"
  "TaskIndication_createIndication api (taskIndication new_TaskFacade)
     = Inr (Inserted (SimpleRecord_insert api (lit ''indication'')))"
  "TaskNotification_sendNotification api (taskNotification new_TaskFacade)
     = Inr (Boolean (truthy api (SimpleRecord_insert api (lit ''notification''))))"
  by (simp_all add: TaskApproval_createApproval_def TaskIndication_createIndication_def
      TaskNotification_sendNotification_def)

text \<open>
  C2. \<open>TaskFacade.startBusinessProcess\<close> is meant to forward to the three helper
  objects of the facade and to return their three results as a list. The body calls the
  methods on the classes instead, where they do not exist: on a freshly constructed
  facade, and whatever the platform's \<open>insert\<close> returns, the first call throws a
  \<open>TypeError\<close> and no list is returned.
\<close>

theorem TaskFacade_startBusinessProcess_throws:
  "TaskFacade_startBusinessProcess api new_TaskFacade = Inl TypeError"
  by (simp add: TaskFacade_startBusinessProcess_def call_static_def static_member_def
      and_then_def)


section \<open>Properties of the observers\<close>

lemma initialState_update: "initialState (Observer_update this a) = initialState this"
  by (simp add: Observer_update_def)

lemma initialState_updates: "initialState (foldl Observer_update this as) = initialState this"
  by (induction as arbitrary: this) (simp_all add: initialState_update)

lemma initialState_new:
  "initialState (new_Observer arg) = (case arg of None \<Rightarrow> Num 1 | Some s \<Rightarrow> s)"
  by (simp add: new_Observer_def Let_def)

text \<open>
  C10. For an observer constructed with initial state \<open>s\<close> (1 when the argument is left
  out) and after any sequence of earlier updates, an action whose type is none of
  \<open>PLUS\<close>, \<open>MINUS\<close>, \<open>MULTI_PLUS\<close> (or is missing) sets the state back to
  \<open>s\<close>; \<open>PLUS\<close> adds 1, \<open>MINUS\<close> subtracts 1 and \<open>MULTI_PLUS\<close> adds the
  action's value to the current state, each in the arithmetic of doubles. Nothing else of
  the observer changes, and \<open>initialState\<close> stays \<open>s\<close>.
\<close>

theorem Observer_update_cases:
  assumes "this = foldl Observer_update (new_Observer arg) prior"
    and "s = (case arg of None \<Rightarrow> Num 1 | Some v \<Rightarrow> v)"
  shows "(action_type a \<noteq> Some (lit ''PLUS'') \<and> action_type a \<noteq> Some (lit ''MINUS'')
            \<and> action_type a \<noteq> Some (lit ''MULTI_PLUS'')
          \<longrightarrow> Observer_update this a = this\<lparr>state := s\<rparr>)
       \<and> (action_type a = Some (lit ''PLUS'')
          \<longrightarrow> Observer_update this a = this\<lparr>state := js_add (state this) (Num 1)\<rparr>)
       \<and> (action_type a = Some (lit ''MINUS'')
          \<longrightarrow> Observer_update this a = this\<lparr>state := js_sub (state this) (Num 1)\<rparr>)
       \<and> (action_type a = Some (lit ''MULTI_PLUS'')
          \<longrightarrow> Observer_update this a
              = this\<lparr>state := js_add (state this) (to_number (action_value a))\<rparr>)
       \<and> initialState this = s"
proof -
  have "initialState this = s"
    using assms by (simp add: initialState_updates initialState_new)
  then show ?thesis
    by (simp add: Observer_update_def lit_def)
qed

theorem Observer_update_cases_witness:
  "Observer_update
     (foldl Observer_update (new_Observer (Some (Num 10))) [PLUS, PLUS, MINUS, MULTI_PLUS (Num 10)])
     \<lparr>action_type = Some (lit ''RESET''), action_value = None\<rparr>
   = \<lparr>state = Num 10, initialState = Num 10\<rparr>
   \<and> Observer_update
     (foldl Observer_update (new_Observer None) [PLUS, PLUS, MINUS, MULTI_PLUS (Num 10)])
     \<lparr>action_type = None, action_value = None\<rparr>
   = \<lparr>state = Num 1, initialState = Num 1\<rparr>
   \<and> foldl Observer_update (new_Observer (Some (Num 10))) [PLUS, PLUS, MINUS, MULTI_PLUS (Num 10)]
   = \<lparr>state = Num 21, initialState = Num 10\<rparr>
   \<and> foldl Observer_update (new_Observer None) [PLUS, PLUS, MINUS, MULTI_PLUS (Num 10)]
   = \<lparr>state = Num 12, initialState = Num 1\<rparr>"
  using Observer_update_cases [OF refl refl,
      of "\<lparr>action_type = Some (lit ''RESET''), action_value = None\<rparr>" "Some (Num 10)"
        "[PLUS, PLUS, MINUS, MULTI_PLUS (Num 10)]"]
    Observer_update_cases [OF refl refl,
      of "\<lparr>action_type = None, action_value = None\<rparr>" None
        "[PLUS, PLUS, MINUS, MULTI_PLUS (Num 10)]"]
  by (simp add: lit_def Observer_update_def new_Observer_def js_add_Num js_sub_Num
      to_number_def PLUS_def MINUS_def MULTI_PLUS_def Let_def)

text \<open>At \<open>2^53\<close> the increment is lost to rounding, as in the source.\<close>

lemma Observer_PLUS_at_2_53:
  "Observer_update \<lparr>state = Num (2 ^ 53), initialState = i\<rparr> PLUS
     = \<lparr>state = Num (2 ^ 53), initialState = i\<rparr>"
  using js_add_rounds_to_even by (simp add: Observer_update_def PLUS_def)

lemma calls_foldl_call_update:
  "calls (foldl (\<lambda>w' observer. call_update observer a w') w rs)
     = calls w @ map (\<lambda>r. (r, a)) rs"
  by (induction rs arbitrary: w) (simp_all add: call_update_def)

lemma calls_Subject_fire:
  "calls (Subject_fire S a w) = calls w @ map (\<lambda>r. (r, a)) (observers S)"
  by (simp add: Subject_fire_def calls_foldl_call_update)

lemma heap_call_update:
  "heap (call_update x a w) r = (if r = x then Observer_update (heap w x) a else heap w r)"
  by (simp add: call_update_def)

lemma updates_swap:
  "((\<lambda>ob. Observer_update ob a) ^^ n) (Observer_update this a)
     = Observer_update (((\<lambda>ob. Observer_update ob a) ^^ n) this) a"
  by (induction n) simp_all

lemma heap_foldl_call_update:
  "heap (foldl (\<lambda>w' observer. call_update observer a w') w rs) r
     = ((\<lambda>ob. Observer_update ob a) ^^ count_list rs r) (heap w r)"
proof (induction rs arbitrary: w)
  case Nil
  then show ?case by simp
next
  case (Cons x xs)
  have "heap (foldl (\<lambda>w' observer. call_update observer a w') (call_update x a w) xs) r
      = ((\<lambda>ob. Observer_update ob a) ^^ count_list xs r) (heap (call_update x a w) r)"
    by (rule Cons.IH)
  then show ?case
    by (simp add: heap_call_update updates_swap)
qed

lemma heap_Subject_fire:
  "heap (Subject_fire S a w) r
     = ((\<lambda>ob. Observer_update ob a) ^^ count_list (observers S) r) (heap w r)"
  by (simp add: Subject_fire_def heap_foldl_call_update)

lemma count_list_distinct: "distinct rs \<Longrightarrow> r \<in> set rs \<Longrightarrow> count_list rs r = 1"
  by (induction rs) auto

lemma calls_to_map: "calls_to r (map (\<lambda>x. (x, a)) rs) = count_list rs r"
  by (induction rs) (simp_all add: calls_to_def)

lemma calls_to_append: "calls_to r (xs @ ys) = calls_to r xs + calls_to r ys"
  by (simp add: calls_to_def)

lemma calls_to_Subject_fire:
  "calls_to r (calls (Subject_fire S a w)) = calls_to r (calls w) + count_list (observers S) r"
  by (simp add: calls_Subject_fire calls_to_append calls_to_map)

lemma observers_subscribe_all:
  "observers (foldl Subject_subscribe S rs) = observers S @ rs"
  by (induction rs arbitrary: S) (simp_all add: Subject_subscribe_def)

lemma subscribers_subscribe_all:
  "subscribers (foldl NewsPublisher_subscribe P rs) = subscribers P @ rs"
  by (induction rs arbitrary: P) (simp_all add: NewsPublisher_subscribe_def)

lemma console_foldl_update:
  "foldl (\<lambda>out' subscriber. NewsSubscriber_update (h subscriber) n out') out rs
     = out @ map (\<lambda>r. name (h r) @ msg_got_news @ show_news n @ double_quote) rs"
  by (induction rs arbitrary: out) (simp_all add: NewsSubscriber_update_def)

lemma NewsPublisher_notify_lines:
  "NewsPublisher_notify P h out
     = out @ map (\<lambda>r. name (h r) @ msg_got_news @ show_news (news P) @ double_quote)
              (subscribers P)"
  by (simp add: NewsPublisher_notify_def console_foldl_update)

lemma NewsPublisher_setNews_lines:
  "NewsPublisher_setNews P text h out
     = (P\<lparr>news := Some text\<rparr>,
        out @ map (\<lambda>x. name (h x) @ msg_got_news @ text @ double_quote) (subscribers P))"
  by (simp add: NewsPublisher_setNews_def Let_def NewsPublisher_notify_lines show_news_def)

text \<open>
  C3, as stated, fails for an observer that was subscribed twice: \<open>subscribe\<close> pushes
  without looking for the observer in the list, so after
  \<open>stream.subscribe(obs1); stream.subscribe(obs1)\<close> one \<open>fire({type: 'PLUS'})\<close> calls
  \<open>obs1.update\<close> twice and takes its state from 1 to 3.
\<close>

theorem fire_subscribed_twice_counterexample:
  "calls_to 0
     (calls (Subject_fire (Subject_subscribe (Subject_subscribe new_Subject 0) 0)
        PLUS snippet_world)) = 2
   \<and> state (heap snippet_world 0) = Num 1
   \<and> state (heap (Subject_fire (Subject_subscribe (Subject_subscribe new_Subject 0) 0)
        PLUS snippet_world) 0) = Num 3"
  by (simp add: calls_to_def Subject_fire_def Subject_subscribe_def new_Subject_def
      call_update_def snippet_world_def Observer_update_def new_Observer_def Let_def
      PLUS_def lit_def js_add_Num)

text \<open>
  C3, amended. A notification calls \<open>update\<close> once for every entry of the subscriber
  list, in the order of the list, and the list holds the observers in the order in which
  they were subscribed. So an observer is called as often as it was subscribed: exactly
  once, with the one update applied to its state, when the list has no observer twice;
  not at all, and left as it was, when it is not in the list. The calls are done when
  \<open>fire\<close> returns. \<open>NewsPublisher.notify\<close> prints one line per entry of its list,
  in the order of the list.
\<close>

theorem fire_calls_once_per_subscription:
  "calls (Subject_fire S a w) = calls w @ map (\<lambda>r. (r, a)) (observers S)
   \<and> observers (foldl Subject_subscribe new_Subject rs) = rs
   \<and> calls_to r (calls (Subject_fire S a w)) = calls_to r (calls w) + count_list (observers S) r
   \<and> heap (Subject_fire S a w) r
       = ((\<lambda>ob. Observer_update ob a) ^^ count_list (observers S) r) (heap w r)
   \<and> (distinct (observers S) \<longrightarrow>
        (\<forall>x \<in> set (observers S).
           calls_to x (calls (Subject_fire S a w)) = calls_to x (calls w) + 1
           \<and> heap (Subject_fire S a w) x = Observer_update (heap w x) a))
   \<and> (r \<notin> set (observers S) \<longrightarrow>
        calls_to r (calls (Subject_fire S a w)) = calls_to r (calls w)
        \<and> heap (Subject_fire S a w) r = heap w r)
   \<and> NewsPublisher_notify P h out
       = out @ map (\<lambda>x. name (h x) @ msg_got_news @ show_news (news P) @ double_quote)
                (subscribers P)
   \<and> subscribers (foldl NewsPublisher_subscribe new_NewsPublisher rs) = rs"
proof -
  have order: "observers (foldl Subject_subscribe new_Subject rs) = rs"
    by (simp add: observers_subscribe_all new_Subject_def)
  have order': "subscribers (foldl NewsPublisher_subscribe new_NewsPublisher rs) = rs"
    by (simp add: subscribers_subscribe_all new_NewsPublisher_def)
  show ?thesis
    using order order'
    by (simp add: calls_Subject_fire calls_to_append calls_to_map heap_Subject_fire
        count_list_distinct NewsPublisher_notify_lines)
qed

theorem fire_calls_once_per_subscription_witness:
  "calls (Subject_fire (Subject_subscribe (Subject_subscribe new_Subject 0) 1) PLUS snippet_world)
     = [(0, PLUS), (1, PLUS)]
   \<and> heap (Subject_fire (Subject_subscribe (Subject_subscribe new_Subject 0) 1) PLUS
        snippet_world) 0
     = \<lparr>state = Num 2, initialState = Num 1\<rparr>
   \<and> heap (Subject_fire (Subject_subscribe (Subject_subscribe new_Subject 0) 1) PLUS
        snippet_world) 1
     = \<lparr>state = Num 11, initialState = Num 10\<rparr>
   \<and> heap (Subject_fire (Subject_subscribe (Subject_subscribe new_Subject 0) 1) PLUS
        snippet_world) 2
     = heap snippet_world 2"
  using fire_calls_once_per_subscription
    [of "Subject_subscribe (Subject_subscribe new_Subject 0) 1" PLUS snippet_world _ 2]
  by (simp add: Subject_subscribe_def new_Subject_def snippet_world_def
      Observer_update_def new_Observer_def Let_def PLUS_def lit_def js_add_Num)

lemma count_list_filter_neq:
  "r \<noteq> obs \<Longrightarrow> count_list (filter (\<lambda>x. x \<noteq> obs) rs) r = count_list rs r"
  by (induction rs) simp_all

lemma filter_neq_absent: "obs \<notin> set rs \<Longrightarrow> filter (\<lambda>x. x \<noteq> obs) rs = rs"
  by (induction rs) auto

text \<open>
  C9. \<open>Subject.unsubscribe(o)\<close> removes the observer \<open>o\<close> from the list and nothing
  else: the new list is the old one without \<open>o\<close>, so every other observer stays, as
  often as before and in the same relative order. A \<open>fire\<close> after the call makes no
  call to \<open>o.update\<close> and leaves \<open>o\<close> as it was, and still calls the remaining
  observers in order. Unsubscribing an observer that is not in the list changes nothing.
  \<open>NewsPublisher.unsubscribe\<close> does the same to its list.
\<close>

theorem unsubscribe_removes_observer:
  "observers (Subject_unsubscribe S obs) = filter (\<lambda>r. r \<noteq> obs) (observers S)
   \<and> obs \<notin> set (observers (Subject_unsubscribe S obs))
   \<and> (\<forall>r. r \<noteq> obs \<longrightarrow>
         count_list (observers (Subject_unsubscribe S obs)) r = count_list (observers S) r)
   \<and> subseq (observers (Subject_unsubscribe S obs)) (observers S)
   \<and> calls (Subject_fire (Subject_unsubscribe S obs) a w)
       = calls w @ map (\<lambda>r. (r, a)) (filter (\<lambda>r. r \<noteq> obs) (observers S))
   \<and> calls_to obs (calls (Subject_fire (Subject_unsubscribe S obs) a w)) = calls_to obs (calls w)
   \<and> heap (Subject_fire (Subject_unsubscribe S obs) a w) obs = heap w obs
   \<and> (obs \<notin> set (observers S) \<longrightarrow> Subject_unsubscribe S obs = S)
   \<and> subscribers (NewsPublisher_unsubscribe P obs) = filter (\<lambda>r. r \<noteq> obs) (subscribers P)
   \<and> (obs \<notin> set (subscribers P) \<longrightarrow> NewsPublisher_unsubscribe P obs = P)"
proof -
  have gone: "count_list (observers (Subject_unsubscribe S obs)) obs = 0"
    by (simp add: Subject_unsubscribe_def)
  have silent: "calls_to obs (calls (Subject_fire (Subject_unsubscribe S obs) a w))
      = calls_to obs (calls w)"
    using gone by (simp add: calls_to_Subject_fire)
  have untouched: "heap (Subject_fire (Subject_unsubscribe S obs) a w) obs = heap w obs"
    using gone by (simp add: heap_Subject_fire)
  have rest: "calls (Subject_fire (Subject_unsubscribe S obs) a w)
       = calls w @ map (\<lambda>r. (r, a)) (filter (\<lambda>r. r \<noteq> obs) (observers S))"
    by (simp add: calls_Subject_fire Subject_unsubscribe_def)
  show ?thesis
    using silent untouched rest
    by (simp add: Subject_unsubscribe_def NewsPublisher_unsubscribe_def count_list_filter_neq
        filter_neq_absent)
qed

theorem unsubscribe_removes_observer_witness:
  "observers (Subject_unsubscribe (Subject_subscribe (Subject_subscribe new_Subject 0) 1) 1) = [0]
   \<and> calls (Subject_fire
        (Subject_unsubscribe (Subject_subscribe (Subject_subscribe new_Subject 0) 1) 1)
        PLUS snippet_world)
       = [(0, PLUS)]
   \<and> heap (Subject_fire
        (Subject_unsubscribe (Subject_subscribe (Subject_subscribe new_Subject 0) 1) 1)
        PLUS snippet_world) 1
       = heap snippet_world 1
   \<and> Subject_unsubscribe (Subject_subscribe (Subject_subscribe new_Subject 0) 1) 5
       = Subject_subscribe (Subject_subscribe new_Subject 0) 1
   \<and> NewsPublisher_unsubscribe (NewsPublisher_subscribe new_NewsPublisher 0) 5
       = NewsPublisher_subscribe new_NewsPublisher 0"
  using unsubscribe_removes_observer
    [of "Subject_subscribe (Subject_subscribe new_Subject 0) 1" 1 PLUS snippet_world]
    unsubscribe_removes_observer
    [of "Subject_subscribe (Subject_subscribe new_Subject 0) 1" 5 _ _
      "NewsPublisher_subscribe new_NewsPublisher 0"]
  by (simp add: Subject_subscribe_def new_Subject_def snippet_world_def
      NewsPublisher_subscribe_def new_NewsPublisher_def)


section \<open>Properties of the singletons\<close>

lemma query_line_not_connect: "msg_query @ sql \<noteq> msg_connect"
  by (simp add: msg_query_def msg_connect_def)

lemma connections_append: "connections (xs @ ys) = connections xs + connections ys"
  by (simp add: connections_def)

lemma connections_query: "connections [msg_query @ sql] = 0"
  by (simp add: connections_def query_line_not_connect)

lemma connections_connect: "connections [msg_connect] = 1"
  by (simp add: connections_def)

text \<open>Once the instance is stored, every call returns it and nothing is constructed.\<close>

lemma Database_run_stored:
  "Database_instance w = Some db \<Longrightarrow>
   snd (Database_run cs w) = replicate (length (filter (\<lambda>c. c = GetInstance) cs)) (Some db)
   \<and> Database_instance (fst (Database_run cs w)) = Some db
   \<and> Database_created (fst (Database_run cs w)) = Database_created w
   \<and> connections (Database_console (fst (Database_run cs w)))
       = connections (Database_console w)"
proof (induction cs arbitrary: w)
  case Nil
  then show ?case by simp
next
  case (Cons c cs)
  show ?case
  proof (cases c)
    case GetInstance
    have "Database_getInstance w = (w, Some db)"
      using Cons.prems by (simp add: Database_getInstance_def)
    then show ?thesis
      using GetInstance Cons.IH [OF Cons.prems] by (simp add: case_prod_beta)
  next
    case (Query sql)
    have "Database_instance (Database_query db sql w) = Some db"
      using Cons.prems by (simp add: Database_query_def)
    from Cons.IH [OF this] show ?thesis
      using Query Cons.prems
      by (simp add: Database_query_def connections_append connections_query)
  qed
qed

text \<open>Before that, the first call of \<open>getInstance\<close> constructs the one object.\<close>

lemma Database_run_fresh:
  "Database_instance w = None \<Longrightarrow>
   snd (Database_run cs w)
     = replicate (length (filter (\<lambda>c. c = GetInstance) cs)) (Some (Database_created w))
   \<and> Database_instance (fst (Database_run cs w))
     = (if GetInstance \<in> set cs then Some (Database_created w) else None)
   \<and> Database_created (fst (Database_run cs w))
     = Database_created w + (if GetInstance \<in> set cs then 1 else 0)
   \<and> connections (Database_console (fst (Database_run cs w)))
     = connections (Database_console w) + (if GetInstance \<in> set cs then 1 else 0)"
proof (induction cs arbitrary: w)
  case Nil
  then show ?case by simp
next
  case (Cons c cs)
  show ?case
  proof (cases c)
    case GetInstance
    define w' where "w' = fst (Database_getInstance w)"
    have step: "Database_getInstance w = (w', Some (Database_created w))"
      and stored: "Database_instance w' = Some (Database_created w)"
      and created: "Database_created w' = Suc (Database_created w)"
      and printed: "Database_console w' = Database_console w @ [msg_connect]"
      using Cons.prems by (simp_all add: w'_def Database_getInstance_def new_Database_def)
    from Database_run_stored [OF stored, of cs] show ?thesis
      using GetInstance step created printed
      by (simp add: connections_append connections_connect case_prod_beta)
  next
    case (Query sql)
    then show ?thesis
      using Cons.IH [OF Cons.prems] Cons.prems by simp
  qed
qed

lemma new_Config_stored:
  "Config_instance w = Some r \<Longrightarrow>
   new_Config w = (w\<lparr>Config_heap := Config_heap w @ [\<lparr>settings = None\<rparr>]\<rparr>, r)"
  by (simp add: new_Config_def Let_def)

text \<open>
  Once the instance is stored, every construction returns it; a direct \<open>new Config()\<close>
  leaves behind the receiver it allocated and did not initialise.
\<close>

lemma Config_run_stored:
  "Config_instance w = Some r \<Longrightarrow>
   snd (Config_run cs w) = replicate (length cs) (Some r)
   \<and> Config_instance (fst (Config_run cs w)) = Some r
   \<and> Config_heap (fst (Config_run cs w))
       = Config_heap w @ replicate (length (filter (\<lambda>c. c = NewConfig) cs)) \<lparr>settings = None\<rparr>"
proof (induction cs arbitrary: w)
  case Nil
  then show ?case by simp
next
  case (Cons c cs)
  show ?case
  proof (cases c)
    case NewSingletonProxy
    have "new_SingletonProxy w = (w, Some r)"
      using Cons.prems by (simp add: new_SingletonProxy_def)
    then show ?thesis
      using NewSingletonProxy Cons.IH [OF Cons.prems] by (simp add: case_prod_beta)
  next
    case NewConfig
    have "Config_instance (w\<lparr>Config_heap := Config_heap w @ [\<lparr>settings = None\<rparr>]\<rparr>) = Some r"
      using Cons.prems by simp
    from Cons.IH [OF this] show ?thesis
      using NewConfig new_Config_stored [OF Cons.prems]
      by (simp add: case_prod_beta replicate_append_same)
  qed
qed

lemma Config_run_start:
  "snd (Config_run cs Config_start) = replicate (length cs) (Some 0)
   \<and> Config_instance (fst (Config_run cs Config_start)) = (if cs = [] then None else Some 0)
   \<and> Config_heap (fst (Config_run cs Config_start))
       = (if cs = [] then []
          else \<lparr>settings = Some []\<rparr>
               # replicate (length (filter (\<lambda>c. c = NewConfig) (tl cs))) \<lparr>settings = None\<rparr>)"
proof (cases cs)
  case Nil
  then show ?thesis by (simp add: Config_start_def)
next
  case (Cons c cs')
  define w1 where
    "w1 = \<lparr>Config_instance = Some 0, Config_heap = [\<lparr>settings = Some []\<rparr>]\<rparr>"
  have direct: "new_Config Config_start = (w1, 0)"
    by (simp add: new_Config_def Config_start_def Let_def w1_def)
  have proxy: "new_SingletonProxy Config_start = (w1, Some 0)"
    by (simp add: new_SingletonProxy_def direct) (simp add: Config_start_def w1_def)
  have stored: "Config_instance w1 = Some 0" and heap1: "Config_heap w1 = [\<lparr>settings = Some []\<rparr>]"
    by (simp_all add: w1_def)
  from Config_run_stored [OF stored, of cs'] show ?thesis
    using Cons direct proxy heap1 by (cases c) (simp_all add: case_prod_beta)
qed

text \<open>
  C7. The singletons have exactly one instance. In every sequence of calls from the start
  of the program, each \<open>Database.getInstance()\<close> returns the same object, the first
  one created. Once \<open>getInstance\<close> has been called, exactly one \<open>Database\<close> has
  been constructed, it is the one stored in \<open>Database.instance\<close>, and the
  constructor's message has been printed exactly once; before that there is none. Likewise
  every \<open>new SingletonProxy()\<close>, and every direct \<open>new Config()\<close> among them,
  returns the same \<open>Config\<close> object: the first one allocated, which is stored in
  \<open>Config.instance\<close> and is the only object of the heap whose \<open>settings\<close> were
  set.
\<close>

theorem singleton_one_instance:
  "snd (Database_run cs Database_start)
     = replicate (length (filter (\<lambda>c. c = GetInstance) cs)) (Some 0)
   \<and> Database_instance (fst (Database_run cs Database_start))
     = (if GetInstance \<in> set cs then Some 0 else None)
   \<and> Database_created (fst (Database_run cs Database_start))
     = (if GetInstance \<in> set cs then 1 else 0)
   \<and> connections (Database_console (fst (Database_run cs Database_start)))
     = (if GetInstance \<in> set cs then 1 else 0)
   \<and> snd (Config_run ds Config_start) = replicate (length ds) (Some 0)
   \<and> Config_instance (fst (Config_run ds Config_start)) = (if ds = [] then None else Some 0)
   \<and> Config_heap (fst (Config_run ds Config_start))
       = (if ds = [] then []
          else \<lparr>settings = Some []\<rparr>
               # replicate (length (filter (\<lambda>c. c = NewConfig) (tl ds))) \<lparr>settings = None\<rparr>)"
proof -
  have "Database_instance Database_start = None"
    by (simp add: Database_start_def)
  from Database_run_fresh [OF this, of cs] Config_run_start [of ds] show ?thesis
    by (simp add: Database_start_def connections_def)
qed

end
